theory Spec2Isabelle
  imports Complex_Main
begin

section \<open>The verification cog of the bot (bot/cogs/verification.py)\<close>

text \<open>
  A shallow embedding of the parts of \<^verbatim>\<open>bot/cogs/verification.py\<close> that classify the
  guild's members, authorise and execute bulk kicks, and schedule the reminder.

  Conventions of the embedding:

  \<^item> Discord identifiers (snowflakes) are Python ints: \<open>int\<close>. A role is identified by its
    id, as \<^verbatim>\<open>discord.Role\<close> compares.
  \<^item> A \<^verbatim>\<open>datetime\<close> is the number of microseconds since the Unix epoch (UTC), a
    \<^verbatim>\<open>timedelta\<close> a number of microseconds: both have microsecond resolution in Python.
  \<^item> Python floats are read as exact rationals (\<open>rat\<close>): \<^verbatim>\<open>n_members / len(...)\<close>,
    the literal \<^verbatim>\<open>0.01\<close> and \<^verbatim>\<open>total_seconds()\<close> carry no rounding here.
  \<^item> A coroutine that talks to Discord is a value of type \<open>'a io\<close>: the calls it issues,
    in order, and either the exception it raises or its result. What the platform
    answers to each call is read from a \<open>platform\<close> record, so every \<^verbatim>\<open>raise\<close> of the
    source is a branch of the model.
\<close>

subsection \<open>Module constants\<close>

definition UNVERIFIED_AFTER :: int where
  "UNVERIFIED_AFTER = 3"

definition KICKED_AFTER :: int where
  "KICKED_AFTER = 30"

definition KICK_CONFIRMATION_THRESHOLD :: rat where
  "KICK_CONFIRMATION_THRESHOLD = 1 / 100"

definition REMINDER_FREQUENCY :: int where
  "REMINDER_FREQUENCY = 28"

text \<open>
  The values of \<^verbatim>\<open>bot.constants\<close> that the cog reads. The module is configuration
  outside this file, so the values are parameters of every function below.
\<close>

record constants =
  Roles_unverified :: int
  Roles_core_developers :: int
  Channels_dev_core :: int
  Channels_verification :: int
  Emojis_incident_actioned :: string
  Emojis_incident_unactioned :: string

subsection \<open>Python's \<^verbatim>\<open>str\<close> of an int, datetime arithmetic\<close>

fun str_nat :: "nat \<Rightarrow> string" where
  "str_nat n =
     (if n < 10 then [''0123456789'' ! n]
      else str_nat (n div 10) @ [''0123456789'' ! (n mod 10)])"

definition str_int :: "int \<Rightarrow> string" where
  "str_int i = (if i < 0 then ''-'' @ str_nat (nat (- i)) else str_nat (nat i))"

definition timedelta_days :: "int \<Rightarrow> int" where
  "timedelta_days d = d * 86400000000"

definition timedelta_hours :: "int \<Rightarrow> int" where
  "timedelta_hours h = h * 3600000000"

definition total_seconds :: "int \<Rightarrow> rat" where
  "total_seconds td = of_int td / 1000000"

text \<open>
  \<^verbatim>\<open>discord.utils.snowflake_time(id)\<close> is
  \<^verbatim>\<open>datetime.utcfromtimestamp(((id >> 22) + DISCORD_EPOCH) / 1000)\<close> with
  \<^verbatim>\<open>DISCORD_EPOCH = 1420070400000\<close>: the milliseconds stored above bit 22.
\<close>

definition DISCORD_EPOCH :: int where
  "DISCORD_EPOCH = 1420070400000"

definition snowflake_time :: "int \<Rightarrow> int" where
  "snowflake_time ident = (ident div 2 ^ 22 + DISCORD_EPOCH) * 1000"

subsection \<open>Members and the guild\<close>

record member =
  member_id :: int
  member_roles :: "int list"
  member_bot :: bool
  joined_at :: "int option"
  guild_default_role :: int

text \<open>
  \<open>guild_members\<close> is \<^verbatim>\<open>pydis.members\<close>; \<open>core_developers\<close> is
  \<^verbatim>\<open>pydis.get_role(constants.Roles.core_developers).members\<close>.
\<close>

record guild =
  guild_members :: "member list"
  core_developers :: "member list"

definition is_verified :: "constants \<Rightarrow> member \<Rightarrow> bool" where
  "is_verified c m =
     (let unverified_roles = {Roles_unverified c, guild_default_role m}
      in card (set (member_roles m) - unverified_roles) > 0)"

subsection \<open>Exceptions, platform calls and coroutines\<close>

text \<open>
  \<^verbatim>\<open>discord.HTTPException\<close> carries the response status; \<^verbatim>\<open>discord.Forbidden\<close> is the
  subclass raised for status 403. \<open>OtherError\<close> stands for an exception of any other
  class, which no handler of this file catches.
\<close>

datatype exn = HTTPException nat | ZeroDivisionError | OtherError

definition is_HTTPException :: "exn \<Rightarrow> bool" where
  "is_HTTPException e = (case e of HTTPException _ \<Rightarrow> True | _ \<Rightarrow> False)"

definition is_Forbidden :: "exn \<Rightarrow> bool" where
  "is_Forbidden e = (e = HTTPException 403)"

text \<open>
  The calls the cog issues. \<open>SendPrompt\<close> is the \<^verbatim>\<open>core_devs.send\<close> of the confirmation
  request: the channel, and the two values its text is formatted from.
\<close>

datatype effect =
    SendPrompt int int rat
  | AddReaction int string
  | ClearReactions int
  | EditMessage int string
  | DirectMessage int string
  | Kick int string
  | AddRoles int int string
  | StatsIncr string nat
  | SendLogMessage string string
  | DeleteMessage int int
  | ChannelSend int string
  | Sleep rat

type_synonym 'a io = "effect list \<times> (exn + 'a)"

definition io_return :: "'a \<Rightarrow> 'a io" where
  "io_return x = ([], Inr x)"

definition io_bind :: "'a io \<Rightarrow> ('a \<Rightarrow> 'b io) \<Rightarrow> 'b io" where
  "io_bind m f =
     (case m of
        (es, Inl e) \<Rightarrow> (es, Inl e)
      | (es, Inr x) \<Rightarrow> (case f x of (es', r) \<Rightarrow> (es @ es', r)))"

definition io_call :: "effect \<Rightarrow> exn + 'a \<Rightarrow> 'a io" where
  "io_call eff outcome = ([eff], outcome)"

text \<open>\<^verbatim>\<open>with suppress(E): await m\<close>\<close>

definition suppress :: "(exn \<Rightarrow> bool) \<Rightarrow> unit io \<Rightarrow> unit io" where
  "suppress handled m =
     (case m of
        (es, Inl e) \<Rightarrow> if handled e then (es, Inr ()) else (es, Inl e)
      | (es, Inr u) \<Rightarrow> (es, Inr u))"

text \<open>
  A \<^verbatim>\<open>reaction_add\<close> event as the gateway dispatches it: the seconds since the wait for
  it began, and the reaction's message, emoji and user.
\<close>

record reaction_add =
  arrived :: rat
  reaction_message_id :: int
  reaction_emoji :: string
  user_id :: int

text \<open>
  What the platform answers. \<open>live m\<close> is the state of the cached member object \<open>m\<close> at
  the moment the request made for it is awaited: the cache is updated by gateway events
  while the cog waits. \<open>reaction_events\<close> are the events dispatched while
  \<^verbatim>\<open>bot.wait_for\<close> waits, in order.
\<close>

record platform =
  utcnow :: int
  live :: "member \<Rightarrow> member"
  send_prompt :: "exn + int"
  add_reaction :: "string \<Rightarrow> exn + unit"
  reaction_events :: "reaction_add list"
  clear_reactions :: "exn + unit"
  edit_message :: "exn + unit"
  member_send :: "member \<Rightarrow> exn + unit"
  member_kick :: "member \<Rightarrow> exn + unit"
  member_add_roles :: "member \<Rightarrow> exn + unit"
  send_log_message :: "exn + unit"
  delete_message :: "exn + unit"
  send_reminder :: "exn + int"

text \<open>
  \<^verbatim>\<open>bot.wait_for("reaction_add", check=check, timeout=timeout)\<close>: the first event
  dispatched no later than the timeout that passes \<open>check\<close>; \<open>None\<close> is
  \<^verbatim>\<open>asyncio.TimeoutError\<close>. An event dispatched at exactly the timeout is still
  returned: \<^verbatim>\<open>asyncio.wait_for\<close> returns the result of a future that is done when the
  timer fires.
\<close>

definition wait_for :: "(reaction_add \<Rightarrow> bool) \<Rightarrow> rat \<Rightarrow> reaction_add list \<Rightarrow> reaction_add option" where
  "wait_for chk timeout evs = find (\<lambda>ev. arrived ev \<le> timeout \<and> chk ev) evs"

subsection \<open>The bulk-kick authoriser\<close>

fun add_reactions :: "platform \<Rightarrow> int \<Rightarrow> string list \<Rightarrow> unit io" where
  "add_reactions pf confirmation_msg [] = io_return ()"
| "add_reactions pf confirmation_msg (option # rest) =
     io_bind (io_call (AddReaction confirmation_msg option) (add_reaction pf option))
       (\<lambda>_. add_reactions pf confirmation_msg rest)"

definition check :: "int \<Rightarrow> string list \<Rightarrow> int list \<Rightarrow> reaction_add \<Rightarrow> bool" where
  "check confirmation_msg options core_dev_ids ev =
     (reaction_message_id ev = confirmation_msg
      \<and> reaction_emoji ev \<in> set options
      \<and> user_id ev \<in> set core_dev_ids)"

definition authorized_msg :: "int \<Rightarrow> string" where
  "authorized_msg n_members =
     '':ok_hand: Request to kick `'' @ str_int n_members @ ''` members was authorized!''"

definition denied_msg :: "int \<Rightarrow> string" where
  "denied_msg n_members =
     '':warning: Request to kick `'' @ str_int n_members @ ''` members was denied!''"

text \<open>
  \<^verbatim>\<open>_verify_kick\<close>, with the module constant \<^verbatim>\<open>KICK_CONFIRMATION_THRESHOLD\<close> as its first
  argument. The \<^verbatim>\<open>finally\<close> clause runs on both ways out of the \<^verbatim>\<open>try\<close>.
\<close>

definition verify_kick_at :: "rat \<Rightarrow> constants \<Rightarrow> platform \<Rightarrow> guild \<Rightarrow> int \<Rightarrow> bool io" where
  "verify_kick_at threshold c pf pydis n_members =
     (if length (guild_members pydis) = 0 then ([], Inl ZeroDivisionError)
      else
        let percentage = of_int n_members / of_nat (length (guild_members pydis)) in
        if percentage < threshold then io_return True
        else
          io_bind (io_call (SendPrompt (Channels_dev_core c) n_members percentage) (send_prompt pf))
            (\<lambda>confirmation_msg.
          let options = [Emojis_incident_actioned c, Emojis_incident_unactioned c] in
          io_bind (add_reactions pf confirmation_msg options)
            (\<lambda>_.
          let core_dev_ids = map member_id (core_developers pydis);
              timeout = 60 * 5;
              finally = suppress is_HTTPException
                (io_call (ClearReactions confirmation_msg) (clear_reactions pf))
          in
          case wait_for (check confirmation_msg options core_dev_ids) timeout (reaction_events pf) of
            None \<Rightarrow> io_bind finally (\<lambda>_. io_return False)
          | Some choice \<Rightarrow>
              io_bind finally
                (\<lambda>_.
              let result = (reaction_emoji choice = Emojis_incident_actioned c);
                  result_msg = (if result then authorized_msg n_members else denied_msg n_members)
              in
              io_bind (suppress is_HTTPException
                         (io_call (EditMessage confirmation_msg result_msg) (edit_message pf)))
                (\<lambda>_. io_return result)))))"

definition verify_kick :: "constants \<Rightarrow> platform \<Rightarrow> guild \<Rightarrow> int \<Rightarrow> bool io" where
  "verify_kick = verify_kick_at KICK_CONFIRMATION_THRESHOLD"

subsection \<open>The batch request executor and the per-member requests\<close>

text \<open>
  \<^verbatim>\<open>_send_requests\<close>: each element of \<open>coroutines\<close> is what the coroutine does when it is
  awaited. Only \<^verbatim>\<open>discord.HTTPException\<close> is caught; any other exception leaves the loop.
\<close>

fun send_requests_loop :: "unit io list \<Rightarrow> nat \<Rightarrow> nat set \<Rightarrow> (nat \<times> nat set) io" where
  "send_requests_loop [] n_success bad_statuses = io_return (n_success, bad_statuses)"
| "send_requests_loop (coro # rest) n_success bad_statuses =
     (case coro of
        (es, Inr _) \<Rightarrow>
          io_bind (es, Inr ()) (\<lambda>_. send_requests_loop rest (n_success + 1) bad_statuses)
      | (es, Inl (HTTPException status)) \<Rightarrow>
          io_bind (es, Inr ()) (\<lambda>_. send_requests_loop rest n_success (insert status bad_statuses))
      | (es, Inl e) \<Rightarrow> (es, Inl e))"

definition send_requests :: "unit io list \<Rightarrow> nat io" where
  "send_requests coroutines =
     io_bind (send_requests_loop coroutines 0 {}) (\<lambda>(n_success, bad_statuses). io_return n_success)"

definition KICKED_MESSAGE :: string where
  "KICKED_MESSAGE =
     [CHR 0x0A] @ ''Hi! You have been automatically kicked from Python Discord as you have failed to accept our rules within `''
     @ str_int KICKED_AFTER @ ''` days. If this was an accident, please feel free to join again.'' @ [CHR 0x0A]"

definition kick_request :: "constants \<Rightarrow> platform \<Rightarrow> member \<Rightarrow> unit io" where
  "kick_request c pf member' =
     (if is_verified c member' then io_return ()
      else
        io_bind (suppress is_Forbidden
                   (io_call (DirectMessage (member_id member') KICKED_MESSAGE) (member_send pf member')))
          (\<lambda>_. io_call (Kick (member_id member')
                          (''User has not verified in '' @ str_int KICKED_AFTER @ '' days''))
                  (member_kick pf member')))"

definition kick_members :: "constants \<Rightarrow> platform \<Rightarrow> member list \<Rightarrow> nat io" where
  "kick_members c pf members =
     (let requests = map (\<lambda>member. kick_request c pf (live pf member)) members in
      io_bind (send_requests requests)
        (\<lambda>n_kicked.
      io_bind (io_call (StatsIncr ''verification.kicked'' n_kicked) (Inr ()))
        (\<lambda>_. io_return n_kicked)))"

definition role_request :: "constants \<Rightarrow> platform \<Rightarrow> member \<Rightarrow> int \<Rightarrow> unit io" where
  "role_request c pf member' role' =
     (if is_verified c member' then io_return ()
      else io_call (AddRoles (member_id member') role'
                      (''User has not verified in '' @ str_int UNVERIFIED_AFTER @ '' days''))
             (member_add_roles pf member'))"

definition give_role :: "constants \<Rightarrow> platform \<Rightarrow> member list \<Rightarrow> int \<Rightarrow> nat io" where
  "give_role c pf members role =
     (let requests = map (\<lambda>member. role_request c pf (live pf member) role) members in
      send_requests requests)"

subsection \<open>The membership classifier\<close>

text \<open>
  \<^verbatim>\<open>_check_members\<close>. The two Python sets are lists without repetition
  (\<open>List.insert\<close> adds an element that is not yet there); the roster holds one object
  for each member, so equality of the records is equality of the objects. The join
  timestamp is read (\<open>the\<close>) only where the guard has found it present.
\<close>

fun check_members_loop ::
  "constants \<Rightarrow> int \<Rightarrow> member list \<Rightarrow> member list \<times> member list \<Rightarrow> member list \<times> member list" where
  "check_members_loop c current_dt [] (for_role, for_kick) = (for_role, for_kick)"
| "check_members_loop c current_dt (member # rest) (for_role, for_kick) =
     (if is_verified c member \<or> member_bot member \<or> joined_at member = None
      then check_members_loop c current_dt rest (for_role, for_kick)
      else
        let since_join = current_dt - the (joined_at member) in
        if since_join > timedelta_days KICKED_AFTER
        then check_members_loop c current_dt rest (for_role, List.insert member for_kick)
        else if since_join > timedelta_days UNVERIFIED_AFTER
                \<and> Roles_unverified c \<notin> set (member_roles member)
        then check_members_loop c current_dt rest (List.insert member for_role, for_kick)
        else check_members_loop c current_dt rest (for_role, for_kick))"

definition check_members :: "constants \<Rightarrow> platform \<Rightarrow> guild \<Rightarrow> member list \<times> member list" where
  "check_members c pf pydis =
     (let current_dt = utcnow pf in
      check_members_loop c current_dt (guild_members pydis) ([], []))"

subsection \<open>The lifecycle scheduler's run\<close>

definition mention :: "int \<Rightarrow> string" where
  "mention role = ''<@&'' @ str_int role @ ''>''"

text \<open>
  \<^verbatim>\<open>update_unverified_members\<close>. \<open>pydis\<close> is the guild as \<^verbatim>\<open>_check_members\<close> reads it,
  \<open>pydis'\<close> the guild as \<^verbatim>\<open>_verify_kick\<close> reads it later in the run.
\<close>

definition update_unverified_members :: "constants \<Rightarrow> platform \<Rightarrow> guild \<Rightarrow> guild \<Rightarrow> unit io" where
  "update_unverified_members c pf pydis pydis' =
     (let unverified = Roles_unverified c in
      case check_members c pf pydis of (for_role, for_kick) \<Rightarrow>
      io_bind
        (if for_role = []
         then io_return (''Found no users to be assigned the '' @ mention unverified @ '' role.'')
         else io_bind (give_role c pf for_role unverified)
                (\<lambda>n_roles. io_return
                   (''Assigned '' @ mention unverified @ '' role to `'' @ str_nat n_roles
                    @ ''`/`'' @ str_nat (length for_role) @ ''` members.'')))
        (\<lambda>role_report.
      io_bind
        (if for_kick = [] then io_return ''Found no users to be kicked.''
         else io_bind (verify_kick c pf pydis' (int (length for_kick)))
                (\<lambda>authorized.
                   if \<not> authorized
                   then io_return (''Not authorized to kick `'' @ str_nat (length for_kick)
                                   @ ''` members.'')
                   else io_bind (kick_members c pf for_kick)
                          (\<lambda>n_kicks. io_return
                             (''Kicked `'' @ str_nat n_kicks @ ''`/`''
                              @ str_nat (length for_kick) @ ''` members from the guild.''))))
        (\<lambda>kick_report.
      io_call (SendLogMessage ''Verification system'' (kick_report @ [CHR 0x0A] @ role_report))
        (send_log_message pf))))"

subsection \<open>The reminder scheduler\<close>

text \<open>
  \<^verbatim>\<open>task_cache\<close>, the Redis cache of the cog: a dictionary from keys to ints. Reads and
  writes of the cache itself do not fail in this model.
\<close>

type_synonym task_cache = "string \<rightharpoonup> int"

definition REMINDER_MESSAGE :: "constants \<Rightarrow> string" where
  "REMINDER_MESSAGE c =
     mention (Roles_unverified c) @ [CHR 0x0A, CHR 0x0A]
     @ ''Welcome to Python Discord! Please read the documents mentioned above and type `!accept` to gain permissions to send messages in the community!''
     @ [CHR 0x0A, CHR 0x0A]
     @ ''You will be kicked if you don't verify within `'' @ str_int KICKED_AFTER @ ''` days.''"

definition ping_unverified :: "constants \<Rightarrow> platform \<Rightarrow> task_cache \<Rightarrow> unit io \<times> task_cache" where
  "ping_unverified c pf cache =
     (let verification = Channels_verification c;
          last_reminder = cache ''last_reminder'';
          deleted =
            (case last_reminder of
               None \<Rightarrow> io_return ()
             | Some lr \<Rightarrow> suppress is_HTTPException
                 (io_call (DeleteMessage verification lr) (delete_message pf)))
      in
      case io_bind deleted
             (\<lambda>_. io_call (ChannelSend verification (REMINDER_MESSAGE c)) (send_reminder pf)) of
        (es, Inl e) \<Rightarrow> ((es, Inl e), cache)
      | (es, Inr new_reminder) \<Rightarrow> ((es, Inr ()), cache(''last_reminder'' \<mapsto> new_reminder)))"

definition before_first_ping :: "platform \<Rightarrow> task_cache \<Rightarrow> unit io" where
  "before_first_ping pf cache =
     (case cache ''last_reminder'' of
        None \<Rightarrow> io_return ()
      | Some last_reminder \<Rightarrow>
          let time_since = utcnow pf - snowflake_time last_reminder;
              to_sleep = timedelta_hours REMINDER_FREQUENCY - time_since;
              secs = max (total_seconds to_sleep) 0
          in io_call (Sleep secs) (Inr ()))"

subsection \<open>Outcomes of platform calls, example values\<close>

text \<open>
  The platform client reports a failed call by raising \<^verbatim>\<open>discord.HTTPException\<close> (or a
  subclass): an outcome is a platform error, or a result.
\<close>

definition platform_error_only :: "exn + 'a \<Rightarrow> bool" where
  "platform_error_only r = (case r of Inl e \<Rightarrow> is_HTTPException e | Inr _ \<Rightarrow> True)"

text \<open>The calls that only \<^verbatim>\<open>_kick_members\<close> and its requests issue.\<close>

definition kick_effect :: "effect \<Rightarrow> bool" where
  "kick_effect e =
     (case e of Kick _ _ \<Rightarrow> True | DirectMessage _ _ \<Rightarrow> True | StatsIncr _ _ \<Rightarrow> True
      | _ \<Rightarrow> False)"

definition example_constants :: constants where
  "example_constants =
     \<lparr>Roles_unverified = 7, Roles_core_developers = 8, Channels_dev_core = 20,
      Channels_verification = 21, Emojis_incident_actioned = ''yes'',
      Emojis_incident_unactioned = ''no''\<rparr>"

definition example_member :: "int \<Rightarrow> int list \<Rightarrow> int option \<Rightarrow> member" where
  "example_member i rs joined =
     \<lparr>member_id = i, member_roles = rs, member_bot = False, joined_at = joined,
      guild_default_role = 1\<rparr>"

text \<open>A platform on which every call succeeds; the prompt gets the message id 500.\<close>

definition example_platform :: "int \<Rightarrow> reaction_add list \<Rightarrow> platform" where
  "example_platform now evs =
     \<lparr>utcnow = now, live = (\<lambda>m. m), send_prompt = Inr 500, add_reaction = (\<lambda>_. Inr ()),
      reaction_events = evs, clear_reactions = Inr (), edit_message = Inr (),
      member_send = (\<lambda>_. Inr ()), member_kick = (\<lambda>_. Inr ()),
      member_add_roles = (\<lambda>_. Inr ()), send_log_message = Inr (),
      delete_message = Inr (), send_reminder = Inr 501\<rparr>"

definition example_guild :: "nat \<Rightarrow> guild" where
  "example_guild n =
     \<lparr>guild_members = replicate n (example_member 30 [1] None),
      core_developers = [example_member 40 [1, 8] None]\<rparr>"

section \<open>Properties\<close>

declare str_nat.simps [simp del]

subsection \<open>Coroutines\<close>

lemma io_bind_return [simp]: "io_bind (io_return x) f = f x"
  by (cases "f x") (simp add: io_bind_def io_return_def)

lemma io_bind_call:
  "io_bind (io_call eff r) f =
     (case r of Inl e \<Rightarrow> ([eff], Inl e) | Inr v \<Rightarrow> (eff # fst (f v), snd (f v)))"
  by (simp add: io_bind_def io_call_def split: sum.splits prod.splits)

lemma snd_io_bind:
  "snd (io_bind m f) = (case snd m of Inl e \<Rightarrow> Inl e | Inr x \<Rightarrow> snd (f x))"
  by (simp add: io_bind_def split: sum.splits prod.splits)

lemma snd_suppress_platform:
  "platform_error_only r \<Longrightarrow> snd (suppress is_HTTPException (io_call eff r)) = Inr ()"
  by (auto simp: suppress_def io_call_def platform_error_only_def split: sum.splits)

subsection \<open>The bulk-kick authoriser\<close>

lemma verify_kick_at_prompt_first:
  assumes "length (guild_members pydis) \<noteq> 0"
    and "\<not> of_int n / of_nat (length (guild_members pydis)) < th"
  shows "\<exists>rest. fst (verify_kick_at th c pf pydis n) =
           SendPrompt (Channels_dev_core c) n (of_int n / of_nat (length (guild_members pydis))) # rest"
  using assms
  by (simp add: verify_kick_at_def Let_def io_bind_call split: sum.splits)

text \<open>
  C1. For a kick count \<open>n \<ge> 0\<close> and a guild of \<open>g > 0\<close> members, \<^verbatim>\<open>_verify_kick\<close> returns
  \<open>True\<close> without issuing any call (no confirmation prompt) if and only if \<open>n / g\<close> is
  below the threshold. With the default threshold, \<open>n = 5\<close> and \<open>g = 1000\<close> are approved
  automatically. With the threshold 0 the first thing the authoriser does is always to
  send the prompt.
\<close>

theorem verify_kick_automatic_approval:
  assumes "0 < length (guild_members pydis)" and "0 \<le> n"
  shows "(verify_kick_at th c pf pydis n = ([], Inr True)
            \<longleftrightarrow> of_int n / of_nat (length (guild_members pydis)) < th)
       \<and> (n = 5 \<and> length (guild_members pydis) = 1000
            \<longrightarrow> verify_kick c pf pydis n = ([], Inr True))
       \<and> (\<exists>rest. fst (verify_kick_at 0 c pf pydis n) =
            SendPrompt (Channels_dev_core c) n (of_int n / of_nat (length (guild_members pydis))) # rest)"
proof (intro conjI)
  let ?g = "length (guild_members pydis)"
  show "verify_kick_at th c pf pydis n = ([], Inr True) \<longleftrightarrow> of_int n / of_nat ?g < th"
  proof (cases "of_int n / of_nat ?g < th")
    case True
    with assms(1) show ?thesis
      by (simp add: verify_kick_at_def io_return_def)
  next
    case False
    with assms(1) verify_kick_at_prompt_first [of pydis n th c pf] show ?thesis
      by auto
  qed
  show "n = 5 \<and> ?g = 1000 \<longrightarrow> verify_kick c pf pydis n = ([], Inr True)"
    by (simp add: verify_kick_def verify_kick_at_def KICK_CONFIRMATION_THRESHOLD_def io_return_def)
  have "\<not> of_int n / of_nat ?g < (0::rat)"
    using assms by (simp add: divide_less_0_iff)
  with assms(1) show "\<exists>rest. fst (verify_kick_at 0 c pf pydis n) =
      SendPrompt (Channels_dev_core c) n (of_int n / of_nat ?g) # rest"
    using verify_kick_at_prompt_first [of pydis n 0 c pf] by simp
qed

theorem verify_kick_automatic_approval_witness:
  "verify_kick_at (1 / 100) example_constants (example_platform 0 []) (example_guild 1000) 5
     = ([], Inr True)
   \<and> verify_kick example_constants (example_platform 0 []) (example_guild 1000) 5 = ([], Inr True)
   \<and> (\<exists>rest. fst (verify_kick_at 0 example_constants (example_platform 0 []) (example_guild 1000) 5)
        = SendPrompt 20 5 (1 / 200) # rest)"
  using verify_kick_automatic_approval
    [of "example_guild 1000" 5 "1 / 100" example_constants "example_platform 0 []"]
  by (simp add: example_guild_def example_constants_def)

text \<open>
  C9. \<^verbatim>\<open>_verify_kick\<close> divides by the number of guild members with no guard: it raises
  \<^verbatim>\<open>ZeroDivisionError\<close> before any call exactly when the guild has no members, so it
  can only return a value when the guild has at least one.
\<close>

theorem verify_kick_division_by_zero:
  "(verify_kick_at th c pf pydis n = ([], Inl ZeroDivisionError)
      \<longleftrightarrow> length (guild_members pydis) = 0)
   \<and> ((\<exists>b. snd (verify_kick_at th c pf pydis n) = Inr b) \<longrightarrow> 0 < length (guild_members pydis))"
proof (intro conjI)
  show "verify_kick_at th c pf pydis n = ([], Inl ZeroDivisionError)
      \<longleftrightarrow> length (guild_members pydis) = 0"
  proof (cases "length (guild_members pydis) = 0")
    case True
    then show ?thesis by (simp add: verify_kick_at_def)
  next
    case False
    show ?thesis
    proof (cases "of_int n / of_nat (length (guild_members pydis)) < th")
      case True
      with False show ?thesis by (simp add: verify_kick_at_def io_return_def)
    next
      case nlt: False
      with False verify_kick_at_prompt_first [of pydis n th c pf] show ?thesis by auto
    qed
  qed
  show "(\<exists>b. snd (verify_kick_at th c pf pydis n) = Inr b) \<longrightarrow> 0 < length (guild_members pydis)"
    by (auto simp: verify_kick_at_def)
qed

theorem verify_kick_division_by_zero_witness:
  "verify_kick_at (1 / 100) example_constants (example_platform 0 []) (example_guild 0) 0
     = ([], Inl ZeroDivisionError)
   \<and> snd (verify_kick_at (1 / 100) example_constants (example_platform 0 []) (example_guild 1000) 5)
     = Inr True
   \<and> 0 < length (guild_members (example_guild 1000))"
  using verify_kick_division_by_zero
    [of "1 / 100" example_constants "example_platform 0 []" "example_guild 0" 0]
    verify_kick_division_by_zero
    [of "1 / 100" example_constants "example_platform 0 []" "example_guild 1000" 5]
  by (simp add: example_guild_def verify_kick_at_def io_return_def)

lemma snd_add_reactions:
  "\<forall>opt \<in> set opts. add_reaction pf opt = Inr () \<Longrightarrow> snd (add_reactions pf msg opts) = Inr ()"
  by (induction opts) (simp_all add: io_return_def snd_io_bind io_call_def)

lemma verify_kick_at_prompted:
  assumes "0 < length (guild_members pydis)"
    and "\<not> of_int n / of_nat (length (guild_members pydis)) < th"
    and "send_prompt pf = Inr msg"
    and "add_reaction pf (Emojis_incident_actioned c) = Inr ()"
    and "add_reaction pf (Emojis_incident_unactioned c) = Inr ()"
    and "platform_error_only (clear_reactions pf)"
    and "platform_error_only (edit_message pf)"
  shows "snd (verify_kick_at th c pf pydis n) =
     Inr (case find (\<lambda>ev. arrived ev \<le> 300
                        \<and> check msg [Emojis_incident_actioned c, Emojis_incident_unactioned c]
                              (map member_id (core_developers pydis)) ev)
                 (reaction_events pf) of
            None \<Rightarrow> False
          | Some ev \<Rightarrow> reaction_emoji ev = Emojis_incident_actioned c)"
proof -
  have ar: "snd (add_reactions pf msg [Emojis_incident_actioned c, Emojis_incident_unactioned c]) = Inr ()"
    using assms(4,5) by (intro snd_add_reactions) simp
  show ?thesis
    using assms(1,2,3) ar
    by (simp add: verify_kick_at_def Let_def snd_io_bind wait_for_def io_call_def
        snd_suppress_platform [OF assms(6), unfolded io_call_def]
        snd_suppress_platform [OF assms(7), unfolded io_call_def] io_return_def
        split: option.splits)
qed

lemma find_Some_split:
  "find P xs = Some x \<longleftrightarrow> (\<exists>pre post. xs = pre @ x # post \<and> P x \<and> (\<forall>e \<in> set pre. \<not> P e))"
proof (induction xs)
  case Nil
  then show ?case by simp
next
  case (Cons a xs)
  show ?case
  proof (cases "P a")
    case True
    have "(\<exists>pre post. a # xs = pre @ x # post \<and> P x \<and> (\<forall>e \<in> set pre. \<not> P e)) \<longleftrightarrow> a = x"
    proof
      assume "\<exists>pre post. a # xs = pre @ x # post \<and> P x \<and> (\<forall>e \<in> set pre. \<not> P e)"
      then obtain pre post where h: "a # xs = pre @ x # post" "\<forall>e \<in> set pre. \<not> P e" by blast
      with True show "a = x" by (cases pre) auto
    next
      assume "a = x"
      with True have "a # xs = [] @ x # xs \<and> P x \<and> (\<forall>e \<in> set []. \<not> P e)" by simp
      then show "\<exists>pre post. a # xs = pre @ x # post \<and> P x \<and> (\<forall>e \<in> set pre. \<not> P e)" by blast
    qed
    with True show ?thesis by simp
  next
    case False
    have "(\<exists>pre post. a # xs = pre @ x # post \<and> P x \<and> (\<forall>e \<in> set pre. \<not> P e))
        \<longleftrightarrow> (\<exists>pre post. xs = pre @ x # post \<and> P x \<and> (\<forall>e \<in> set pre. \<not> P e))"
    proof
      assume "\<exists>pre post. a # xs = pre @ x # post \<and> P x \<and> (\<forall>e \<in> set pre. \<not> P e)"
      then obtain pre post where h: "a # xs = pre @ x # post" "P x" "\<forall>e \<in> set pre. \<not> P e" by blast
      with False obtain pre' where "pre = a # pre'" by (cases pre) auto
      with h have "xs = pre' @ x # post \<and> P x \<and> (\<forall>e \<in> set pre'. \<not> P e)" by simp
      then show "\<exists>pre post. xs = pre @ x # post \<and> P x \<and> (\<forall>e \<in> set pre. \<not> P e)" by blast
    next
      assume "\<exists>pre post. xs = pre @ x # post \<and> P x \<and> (\<forall>e \<in> set pre. \<not> P e)"
      then obtain pre post where h: "xs = pre @ x # post" "P x" "\<forall>e \<in> set pre. \<not> P e" by blast
      with False have "a # xs = (a # pre) @ x # post \<and> P x \<and> (\<forall>e \<in> set (a # pre). \<not> P e)" by simp
      then show "\<exists>pre post. a # xs = pre @ x # post \<and> P x \<and> (\<forall>e \<in> set pre. \<not> P e)" by blast
    qed
    with False Cons.IH show ?thesis by simp
  qed
qed

lemma wait_for_filter: "wait_for chk t (filter chk evs) = wait_for chk t evs"
  unfolding wait_for_def by (induction evs) auto


text \<open>
  C2. When the prompt has been posted (the send and both reactions succeeded, and the
  platform fails in no other way than by a platform error), a response is valid when it
  is a reaction on the prompt message, with one of the two options, by a user whose id
  is among the holders of the core developers role. \<^verbatim>\<open>_verify_kick\<close> returns \<open>True\<close>
  exactly when the first valid response within the 300 seconds (one that arrives at
  300 seconds included) carries the approve option; it always returns a boolean; it
  returns \<open>False\<close> when every valid response arrives later than 300 seconds; and the
  responses that are not valid change nothing.
\<close>

theorem verify_kick_confirmation:
  assumes "0 < length (guild_members pydis)"
    and "\<not> of_int n / of_nat (length (guild_members pydis)) < th"
    and "send_prompt pf = Inr msg"
    and "add_reaction pf (Emojis_incident_actioned c) = Inr ()"
    and "add_reaction pf (Emojis_incident_unactioned c) = Inr ()"
    and "platform_error_only (clear_reactions pf)"
    and "platform_error_only (edit_message pf)"
  shows
    "let valid = (\<lambda>ev. reaction_message_id ev = msg
                    \<and> reaction_emoji ev \<in> {Emojis_incident_actioned c, Emojis_incident_unactioned c}
                    \<and> user_id ev \<in> member_id ` set (core_developers pydis));
         outcome = snd (verify_kick_at th c pf pydis n)
     in (outcome = Inr True \<longleftrightarrow>
           (\<exists>pre ev post. reaction_events pf = pre @ ev # post
              \<and> (\<forall>e \<in> set pre. \<not> (arrived e \<le> 300 \<and> valid e))
              \<and> arrived ev \<le> 300 \<and> valid ev
              \<and> reaction_emoji ev = Emojis_incident_actioned c))
      \<and> (outcome = Inr True \<or> outcome = Inr False)
      \<and> ((\<forall>ev \<in> set (reaction_events pf). valid ev \<longrightarrow> 300 < arrived ev) \<longrightarrow> outcome = Inr False)
      \<and> verify_kick_at th c (pf\<lparr>reaction_events := filter valid (reaction_events pf)\<rparr>) pydis n
          = verify_kick_at th c pf pydis n"
proof -
  let ?a = "Emojis_incident_actioned c"
  let ?u = "Emojis_incident_unactioned c"
  let ?valid = "\<lambda>ev. reaction_message_id ev = msg \<and> reaction_emoji ev \<in> {?a, ?u}
                    \<and> user_id ev \<in> member_id ` set (core_developers pydis)"
  let ?P = "\<lambda>ev. arrived ev \<le> 300 \<and> ?valid ev"
  let ?out = "snd (verify_kick_at th c pf pydis n)"
  have chk: "check msg [?a, ?u] (map member_id (core_developers pydis)) = ?valid"
    by (auto simp: check_def fun_eq_iff)
  have out: "?out = Inr (case find ?P (reaction_events pf) of
                           None \<Rightarrow> False | Some ev \<Rightarrow> reaction_emoji ev = ?a)"
    using verify_kick_at_prompted [OF assms] by (simp add: chk)
  have approve: "?out = Inr True \<longleftrightarrow>
      (\<exists>pre ev post. reaction_events pf = pre @ ev # post
         \<and> (\<forall>e \<in> set pre. \<not> ?P e) \<and> arrived ev \<le> 300 \<and> ?valid ev \<and> reaction_emoji ev = ?a)"
  proof
    assume "?out = Inr True"
    with out obtain ev where f: "find ?P (reaction_events pf) = Some ev" and e: "reaction_emoji ev = ?a"
      by (auto split: option.splits)
    from f obtain pre post where "reaction_events pf = pre @ ev # post" "?P ev" "\<forall>e \<in> set pre. \<not> ?P e"
      unfolding find_Some_split by blast
    with e show "\<exists>pre ev post. reaction_events pf = pre @ ev # post
         \<and> (\<forall>e \<in> set pre. \<not> ?P e) \<and> arrived ev \<le> 300 \<and> ?valid ev \<and> reaction_emoji ev = ?a"
      by blast
  next
    assume "\<exists>pre ev post. reaction_events pf = pre @ ev # post
         \<and> (\<forall>e \<in> set pre. \<not> ?P e) \<and> arrived ev \<le> 300 \<and> ?valid ev \<and> reaction_emoji ev = ?a"
    then obtain pre ev post where h: "reaction_events pf = pre @ ev # post" "\<forall>e \<in> set pre. \<not> ?P e"
      "?P ev" "reaction_emoji ev = ?a"
      by blast
    then have "find ?P (reaction_events pf) = Some ev"
      unfolding find_Some_split by blast
    with out h(4) show "?out = Inr True" by simp
  qed
  have returns: "?out = Inr True \<or> ?out = Inr False"
    using out by (simp split: option.splits)
  have expired: "(\<forall>ev \<in> set (reaction_events pf). ?valid ev \<longrightarrow> 300 < arrived ev) \<longrightarrow> ?out = Inr False"
  proof
    assume "\<forall>ev \<in> set (reaction_events pf). ?valid ev \<longrightarrow> 300 < arrived ev"
    then have "\<forall>ev \<in> set (reaction_events pf). \<not> ?P ev" by auto
    then have "find ?P (reaction_events pf) = None"
      unfolding find_None_iff by blast
    with out show "?out = Inr False" by simp
  qed
  have "verify_kick_at th c
          (pf\<lparr>reaction_events :=
                filter (check msg [?a, ?u] (map member_id (core_developers pydis))) (reaction_events pf)\<rparr>)
          pydis n
        = verify_kick_at th c pf pydis n"
    using assms(1,2,3)
    by (simp add: verify_kick_at_def Let_def wait_for_filter io_bind_call cong: option.case_cong)
  then have ignored: "verify_kick_at th c (pf\<lparr>reaction_events := filter ?valid (reaction_events pf)\<rparr>) pydis n
          = verify_kick_at th c pf pydis n"
    by (simp only: chk)
  from approve returns expired ignored show ?thesis
    unfolding Let_def by blast
qed

theorem verify_kick_confirmation_witness:
  "snd (verify_kick_at (1 / 100) example_constants
         (example_platform 0
            [\<lparr>arrived = 10, reaction_message_id = 500, reaction_emoji = ''yes'', user_id = 30\<rparr>,
             \<lparr>arrived = 20, reaction_message_id = 500, reaction_emoji = ''maybe'', user_id = 40\<rparr>,
             \<lparr>arrived = 300, reaction_message_id = 500, reaction_emoji = ''yes'', user_id = 40\<rparr>])
         (example_guild 1000) 50) = Inr True
   \<and> snd (verify_kick_at (1 / 100) example_constants
         (example_platform 0
            [\<lparr>arrived = 10, reaction_message_id = 500, reaction_emoji = ''yes'', user_id = 30\<rparr>,
             \<lparr>arrived = 301, reaction_message_id = 500, reaction_emoji = ''yes'', user_id = 40\<rparr>])
         (example_guild 1000) 50) = Inr False
   \<and> snd (verify_kick_at (1 / 100) example_constants
         (example_platform 0
            [\<lparr>arrived = 10, reaction_message_id = 500, reaction_emoji = ''no'', user_id = 40\<rparr>,
             \<lparr>arrived = 20, reaction_message_id = 500, reaction_emoji = ''yes'', user_id = 40\<rparr>])
         (example_guild 1000) 50) = Inr False"
proof -
  let ?approved = "example_platform 0
            [\<lparr>arrived = 10, reaction_message_id = 500, reaction_emoji = ''yes'', user_id = 30\<rparr>,
             \<lparr>arrived = 20, reaction_message_id = 500, reaction_emoji = ''maybe'', user_id = 40\<rparr>,
             \<lparr>arrived = 300, reaction_message_id = 500, reaction_emoji = ''yes'', user_id = 40\<rparr>]"
  let ?expired = "example_platform 0
            [\<lparr>arrived = 10, reaction_message_id = 500, reaction_emoji = ''yes'', user_id = 30\<rparr>,
             \<lparr>arrived = 301, reaction_message_id = 500, reaction_emoji = ''yes'', user_id = 40\<rparr>]"
  let ?denied = "example_platform 0
            [\<lparr>arrived = 10, reaction_message_id = 500, reaction_emoji = ''no'', user_id = 40\<rparr>,
             \<lparr>arrived = 20, reaction_message_id = 500, reaction_emoji = ''yes'', user_id = 40\<rparr>]"
  have g: "0 < length (guild_members (example_guild 1000))"
    and r: "\<not> of_int 50 / of_nat (length (guild_members (example_guild 1000))) < (1 / 100 :: rat)"
    by (simp_all add: example_guild_def)
  have c: "Emojis_incident_actioned example_constants = ''yes''"
    "Emojis_incident_unactioned example_constants = ''no''"
    by (simp_all add: example_constants_def)
  have d: "core_developers (example_guild 1000) = [example_member 40 [1, 8] None]"
    by (simp add: example_guild_def)
  have p: "send_prompt (example_platform 0 evs) = Inr 500"
    "add_reaction (example_platform 0 evs) opt = Inr ()"
    "platform_error_only (clear_reactions (example_platform 0 evs))"
    "platform_error_only (edit_message (example_platform 0 evs))"
    "reaction_events (example_platform 0 evs) = evs" for evs opt
    by (simp_all add: example_platform_def platform_error_only_def)
  note inst = verify_kick_confirmation
    [where c = example_constants, OF g r p(1) p(2) p(2) p(3) p(4), unfolded Let_def p(5) c d]
  have approved: "snd (verify_kick_at (1 / 100) example_constants ?approved (example_guild 1000) 50)
      = Inr True"
  proof -
    have "\<exists>pre ev post.
        [\<lparr>arrived = 10, reaction_message_id = 500, reaction_emoji = ''yes'', user_id = 30\<rparr>,
         \<lparr>arrived = 20, reaction_message_id = 500, reaction_emoji = ''maybe'', user_id = 40\<rparr>,
         \<lparr>arrived = 300, reaction_message_id = 500, reaction_emoji = ''yes'', user_id = 40\<rparr>]
          = pre @ ev # post
        \<and> (\<forall>e \<in> set pre. \<not> (arrived e \<le> 300
              \<and> reaction_message_id e = 500 \<and> reaction_emoji e \<in> {''yes'', ''no''}
              \<and> user_id e \<in> member_id ` set [example_member 40 [1, 8] None]))
        \<and> arrived ev \<le> 300
        \<and> (reaction_message_id ev = 500 \<and> reaction_emoji ev \<in> {''yes'', ''no''}
              \<and> user_id ev \<in> member_id ` set [example_member 40 [1, 8] None])
        \<and> reaction_emoji ev = ''yes''"
      by (rule exI [of _ "[\<lparr>arrived = 10, reaction_message_id = 500, reaction_emoji = ''yes'', user_id = 30\<rparr>,
             \<lparr>arrived = 20, reaction_message_id = 500, reaction_emoji = ''maybe'', user_id = 40\<rparr>]"],
          rule exI [of _ "\<lparr>arrived = 300, reaction_message_id = 500, reaction_emoji = ''yes'', user_id = 40\<rparr>"],
          rule exI [of _ "[]"])
        (simp add: example_member_def)
    with inst [of "[\<lparr>arrived = 10, reaction_message_id = 500, reaction_emoji = ''yes'', user_id = 30\<rparr>,
         \<lparr>arrived = 20, reaction_message_id = 500, reaction_emoji = ''maybe'', user_id = 40\<rparr>,
         \<lparr>arrived = 300, reaction_message_id = 500, reaction_emoji = ''yes'', user_id = 40\<rparr>]"]
    show ?thesis by blast
  qed
  have expired: "snd (verify_kick_at (1 / 100) example_constants ?expired (example_guild 1000) 50)
      = Inr False"
  proof -
    have "\<forall>ev \<in> set [\<lparr>arrived = 10, reaction_message_id = 500, reaction_emoji = ''yes'', user_id = 30\<rparr>,
             \<lparr>arrived = 301, reaction_message_id = 500, reaction_emoji = ''yes'', user_id = 40\<rparr>].
        reaction_message_id ev = 500 \<and> reaction_emoji ev \<in> {''yes'', ''no''}
          \<and> user_id ev \<in> member_id ` set [example_member 40 [1, 8] None]
        \<longrightarrow> 300 < arrived ev"
      by (simp add: example_member_def)
    with inst [of "[\<lparr>arrived = 10, reaction_message_id = 500, reaction_emoji = ''yes'', user_id = 30\<rparr>,
             \<lparr>arrived = 301, reaction_message_id = 500, reaction_emoji = ''yes'', user_id = 40\<rparr>]"]
    show ?thesis by blast
  qed
  have denied: "snd (verify_kick_at (1 / 100) example_constants ?denied (example_guild 1000) 50)
      = Inr False"
    by (simp add: verify_kick_at_def Let_def example_platform_def example_member_def
        example_constants_def example_guild_def io_bind_def io_call_def io_return_def suppress_def
        wait_for_def check_def is_HTTPException_def)
  from approved expired denied show ?thesis by simp
qed

subsection \<open>The batch request executor\<close>

lemma io_bind_done: "io_bind (es, Inr u) f = (es @ fst (f u), snd (f u))"
  by (simp add: io_bind_def split: prod.splits)

lemma send_requests_loop_platform:
  assumes "\<forall>r \<in> set coroutines. platform_error_only (snd r)"
  shows "\<exists>bad. send_requests_loop coroutines n_success bad_statuses =
           (concat (map fst coroutines),
            Inr (n_success + length (filter (\<lambda>r. \<not> isl (snd r)) coroutines), bad))"
  using assms
proof (induction coroutines arbitrary: n_success bad_statuses)
  case Nil
  then show ?case by (simp add: io_return_def)
next
  case (Cons coro rest)
  obtain es r where coro: "coro = (es, r)" by (cases coro)
  from Cons.prems have rest: "\<forall>r \<in> set rest. platform_error_only (snd r)" by simp
  show ?case
  proof (cases r)
    case (Inr u)
    from Cons.IH [OF rest, of "n_success + 1" bad_statuses] coro Inr show ?thesis
      by (auto simp: io_bind_done)
  next
    case (Inl e)
    with Cons.prems coro obtain status where e: "e = HTTPException status"
      by (cases e) (auto simp: platform_error_only_def is_HTTPException_def)
    from Cons.IH [OF rest, of n_success "insert status bad_statuses"] coro Inl e show ?thesis
      by (auto simp: io_bind_done)
  qed
qed

text \<open>
  C6. When the requests fail by platform errors only, \<^verbatim>\<open>_send_requests\<close> awaits every
  request, in order (the calls of all of them are issued), and returns the number of
  requests that raised nothing. Of 10 requests of which 3 raise a platform error it
  returns 7.
\<close>

theorem send_requests_counts_successes:
  assumes "\<forall>r \<in> set coroutines. platform_error_only (snd r)"
  shows "send_requests coroutines =
           (concat (map fst coroutines), Inr (length (filter (\<lambda>r. \<not> isl (snd r)) coroutines)))
       \<and> (length coroutines = 10 \<and> length (filter (\<lambda>r. isl (snd r)) coroutines) = 3
            \<longrightarrow> snd (send_requests coroutines) = Inr 7)"
proof -
  from send_requests_loop_platform [OF assms, of 0 "{}"]
  obtain bad where "send_requests_loop coroutines 0 {} =
      (concat (map fst coroutines), Inr (length (filter (\<lambda>r. \<not> isl (snd r)) coroutines), bad))"
    by auto
  then have eq: "send_requests coroutines =
      (concat (map fst coroutines), Inr (length (filter (\<lambda>r. \<not> isl (snd r)) coroutines)))"
    by (simp add: send_requests_def io_bind_done io_return_def)
  have "length (filter (\<lambda>r. isl (snd r)) coroutines)
      + length (filter (\<lambda>r. \<not> isl (snd r)) coroutines) = length coroutines"
    by (rule sum_length_filter_compl)
  with eq show ?thesis by auto
qed

theorem send_requests_counts_successes_witness:
  "send_requests
     [([Kick 1 ''r''], Inr ()), ([Kick 2 ''r''], Inl (HTTPException 500)),
      ([Kick 3 ''r''], Inr ()), ([Kick 4 ''r''], Inr ()),
      ([Kick 5 ''r''], Inl (HTTPException 429)), ([Kick 6 ''r''], Inr ()),
      ([Kick 7 ''r''], Inr ()), ([Kick 8 ''r''], Inl (HTTPException 500)),
      ([Kick 9 ''r''], Inr ()), ([Kick 10 ''r''], Inr ())]
   = ([Kick 1 ''r'', Kick 2 ''r'', Kick 3 ''r'', Kick 4 ''r'', Kick 5 ''r'', Kick 6 ''r'',
       Kick 7 ''r'', Kick 8 ''r'', Kick 9 ''r'', Kick 10 ''r''], Inr 7)"
  using send_requests_counts_successes
    [of "[([Kick 1 ''r''], Inr ()), ([Kick 2 ''r''], Inl (HTTPException 500)),
      ([Kick 3 ''r''], Inr ()), ([Kick 4 ''r''], Inr ()),
      ([Kick 5 ''r''], Inl (HTTPException 429)), ([Kick 6 ''r''], Inr ()),
      ([Kick 7 ''r''], Inr ()), ([Kick 8 ''r''], Inl (HTTPException 500)),
      ([Kick 9 ''r''], Inr ()), ([Kick 10 ''r''], Inr ())]"]
  by (simp add: platform_error_only_def is_HTTPException_def)

text \<open>
  C7. For a member that is verified when its request is awaited, the kick request and
  the role request issue no call (no message, no kick, no role) and return normally;
  the executor counts each as a success, and so do \<^verbatim>\<open>_kick_members\<close> and
  \<^verbatim>\<open>_give_role\<close> for a member whose cached object is verified by then.
\<close>

theorem verified_member_requests_are_noops:
  assumes "is_verified c member'"
  shows "kick_request c pf member' = ([], Inr ())
       \<and> role_request c pf member' role' = ([], Inr ())
       \<and> send_requests [kick_request c pf member'] = ([], Inr 1)
       \<and> send_requests [role_request c pf member' role'] = ([], Inr 1)
       \<and> (live pf m = member' \<longrightarrow>
            kick_members c pf [m] = ([StatsIncr ''verification.kicked'' 1], Inr 1)
            \<and> give_role c pf [m] role' = ([], Inr 1))"
  using assms
  by (simp add: kick_request_def role_request_def send_requests_def kick_members_def
      give_role_def io_return_def io_bind_def io_call_def)

theorem verified_member_requests_are_noops_witness:
  "is_verified example_constants (example_member 30 [1, 7, 9] (Some 0))
   \<and> kick_request example_constants (example_platform 0 []) (example_member 30 [1, 7, 9] (Some 0))
       = ([], Inr ())
   \<and> role_request example_constants (example_platform 0 []) (example_member 30 [1, 7, 9] (Some 0)) 7
       = ([], Inr ())
   \<and> kick_members example_constants (example_platform 0 []) [example_member 30 [1, 7, 9] (Some 0)]
       = ([StatsIncr ''verification.kicked'' 1], Inr 1)
   \<and> give_role example_constants (example_platform 0 []) [example_member 30 [1, 7, 9] (Some 0)] 7
       = ([], Inr 1)"
proof -
  have v: "is_verified example_constants (example_member 30 [1, 7, 9] (Some 0))"
    by (simp add: is_verified_def example_constants_def example_member_def)
  have l: "live (example_platform 0 []) (example_member 30 [1, 7, 9] (Some 0))
             = example_member 30 [1, 7, 9] (Some 0)"
    by (simp add: example_platform_def)
  from v l verified_member_requests_are_noops
    [OF v, of "example_platform 0 []" 7 "example_member 30 [1, 7, 9] (Some 0)"]
  show ?thesis by simp
qed

subsection \<open>The membership classifier\<close>

lemma check_members_loop_for_kick:
  "set (snd (check_members_loop c now ms (for_role, for_kick))) =
     set for_kick \<union>
     {m \<in> set ms. \<exists>joined. joined_at m = Some joined \<and> \<not> is_verified c m \<and> \<not> member_bot m
                     \<and> now - joined > timedelta_days KICKED_AFTER}"
  by (induction ms arbitrary: for_role for_kick) (auto simp: Let_def)

lemma check_members_loop_for_role:
  "set (fst (check_members_loop c now ms (for_role, for_kick))) =
     set for_role \<union>
     {m \<in> set ms. \<exists>joined. joined_at m = Some joined \<and> \<not> is_verified c m \<and> \<not> member_bot m
                     \<and> \<not> now - joined > timedelta_days KICKED_AFTER
                     \<and> now - joined > timedelta_days UNVERIFIED_AFTER
                     \<and> Roles_unverified c \<notin> set (member_roles m)}"
  by (induction ms arbitrary: for_role for_kick) (auto simp: Let_def)

lemma for_kick_iff:
  "m \<in> set (snd (check_members c pf pydis)) \<longleftrightarrow>
     m \<in> set (guild_members pydis)
     \<and> (\<exists>joined. joined_at m = Some joined \<and> \<not> is_verified c m \<and> \<not> member_bot m
           \<and> utcnow pf - joined > 2592000000000)"
  by (simp add: check_members_def check_members_loop_for_kick timedelta_days_def KICKED_AFTER_def)

lemma for_role_iff:
  "m \<in> set (fst (check_members c pf pydis)) \<longleftrightarrow>
     m \<in> set (guild_members pydis)
     \<and> (\<exists>joined. joined_at m = Some joined \<and> \<not> is_verified c m \<and> \<not> member_bot m
           \<and> utcnow pf - joined \<le> 2592000000000 \<and> utcnow pf - joined > 259200000000
           \<and> Roles_unverified c \<notin> set (member_roles m))"
  by (simp add: check_members_def check_members_loop_for_role timedelta_days_def KICKED_AFTER_def
      UNVERIFIED_AFTER_def not_less)

text \<open>
  C4. For a member of the roster, with \<open>(for_role, for_kick)\<close> the result of
  \<^verbatim>\<open>_check_members\<close>: a member that is verified, a bot, or without join timestamp is in
  neither set. Any other member, with \<open>elapsed = now - joined_at\<close> in microseconds, is in
  \<open>for_kick\<close> exactly when \<open>elapsed\<close> exceeds 30 days, in \<open>for_role\<close> exactly when
  \<open>elapsed\<close> exceeds 3 days, does not exceed 30 days, and the member does not hold the
  unverified role, and in neither set when \<open>elapsed\<close> does not exceed 3 days.
\<close>

theorem check_members_classifies:
  assumes "m \<in> set (guild_members pydis)"
    and "check_members c pf pydis = (for_role, for_kick)"
  shows "(is_verified c m \<or> member_bot m \<or> joined_at m = None
            \<longrightarrow> m \<notin> set for_role \<and> m \<notin> set for_kick)
       \<and> (\<forall>joined. \<not> is_verified c m \<and> \<not> member_bot m \<and> joined_at m = Some joined \<longrightarrow>
            (m \<in> set for_kick \<longleftrightarrow> utcnow pf - joined > 30 * 86400 * 1000000)
            \<and> (m \<in> set for_role \<longleftrightarrow>
                  3 * 86400 * 1000000 < utcnow pf - joined
                  \<and> utcnow pf - joined \<le> 30 * 86400 * 1000000
                  \<and> Roles_unverified c \<notin> set (member_roles m))
            \<and> (utcnow pf - joined \<le> 3 * 86400 * 1000000
                  \<longrightarrow> m \<notin> set for_role \<and> m \<notin> set for_kick))"
proof -
  have k: "m \<in> set for_kick \<longleftrightarrow>
     (\<exists>joined. joined_at m = Some joined \<and> \<not> is_verified c m \<and> \<not> member_bot m
           \<and> utcnow pf - joined > 2592000000000)"
    using for_kick_iff [of m c pf pydis] assms by simp
  have r: "m \<in> set for_role \<longleftrightarrow>
     (\<exists>joined. joined_at m = Some joined \<and> \<not> is_verified c m \<and> \<not> member_bot m
           \<and> utcnow pf - joined \<le> 2592000000000 \<and> utcnow pf - joined > 259200000000
           \<and> Roles_unverified c \<notin> set (member_roles m))"
    using for_role_iff [of m c pf pydis] assms by simp
  show ?thesis
    unfolding k r by auto
qed

theorem check_members_classifies_witness:
  "check_members example_constants (example_platform 3000000000000 [])
     \<lparr>guild_members =
        [example_member 31 [1] (Some 0), example_member 32 [1] (Some 2000000000000),
         example_member 33 [1, 7] (Some 2000000000000), example_member 34 [1] (Some 2900000000000),
         example_member 35 [1, 9] (Some 0), example_member 36 [1] None],
      core_developers = []\<rparr>
   = ([example_member 32 [1] (Some 2000000000000)], [example_member 31 [1] (Some 0)])
   \<and> (3 * 86400 * 1000000 < 3000000000000 - (2000000000000 :: int)
       \<and> 3000000000000 - (2000000000000 :: int) \<le> 30 * 86400 * 1000000
       \<and> Roles_unverified example_constants \<notin> set (member_roles (example_member 32 [1] (Some 2000000000000))))"
proof -
  let ?pydis = "\<lparr>guild_members =
        [example_member 31 [1] (Some 0), example_member 32 [1] (Some 2000000000000),
         example_member 33 [1, 7] (Some 2000000000000), example_member 34 [1] (Some 2900000000000),
         example_member 35 [1, 9] (Some 0), example_member 36 [1] None],
      core_developers = []\<rparr>"
  have run: "check_members example_constants (example_platform 3000000000000 []) ?pydis
     = ([example_member 32 [1] (Some 2000000000000)], [example_member 31 [1] (Some 0)])"
    by (simp add: check_members_def example_platform_def example_member_def example_constants_def
        is_verified_def timedelta_days_def KICKED_AFTER_def UNVERIFIED_AFTER_def)
  have mem: "example_member 32 [1] (Some 2000000000000) \<in> set (guild_members ?pydis)"
    by simp
  from check_members_classifies [OF mem run] run show ?thesis
    by (simp add: example_member_def example_constants_def example_platform_def is_verified_def)
qed

text \<open>
  C5. The two sets \<^verbatim>\<open>_check_members\<close> returns are disjoint, and no member of either
  was verified in the roster it read.
\<close>

theorem check_members_disjoint_unverified:
  "set (fst (check_members c pf pydis)) \<inter> set (snd (check_members c pf pydis)) = {}
   \<and> (\<forall>m \<in> set (fst (check_members c pf pydis)) \<union> set (snd (check_members c pf pydis)).
         \<not> is_verified c m \<and> m \<in> set (guild_members pydis))"
proof (intro conjI ballI)
  show "set (fst (check_members c pf pydis)) \<inter> set (snd (check_members c pf pydis)) = {}"
    by (auto simp: for_kick_iff for_role_iff)
next
  fix m
  assume "m \<in> set (fst (check_members c pf pydis)) \<union> set (snd (check_members c pf pydis))"
  then show "\<not> is_verified c m"
    by (auto simp: for_kick_iff for_role_iff)
next
  fix m
  assume "m \<in> set (fst (check_members c pf pydis)) \<union> set (snd (check_members c pf pydis))"
  then show "m \<in> set (guild_members pydis)"
    by (auto simp: for_kick_iff for_role_iff)
qed

theorem check_members_disjoint_unverified_witness:
  "set (fst (check_members example_constants (example_platform 3000000000000 [])
          \<lparr>guild_members =
             [example_member 31 [1] (Some 0), example_member 32 [1] (Some 2000000000000),
              example_member 35 [1, 9] (Some 0)],
           core_developers = []\<rparr>))
     = {example_member 32 [1] (Some 2000000000000)}
   \<and> set (snd (check_members example_constants (example_platform 3000000000000 [])
          \<lparr>guild_members =
             [example_member 31 [1] (Some 0), example_member 32 [1] (Some 2000000000000),
              example_member 35 [1, 9] (Some 0)],
           core_developers = []\<rparr>))
     = {example_member 31 [1] (Some 0)}
   \<and> \<not> is_verified example_constants (example_member 32 [1] (Some 2000000000000))
   \<and> \<not> is_verified example_constants (example_member 31 [1] (Some 0))"
proof -
  let ?pydis = "\<lparr>guild_members =
             [example_member 31 [1] (Some 0), example_member 32 [1] (Some 2000000000000),
              example_member 35 [1, 9] (Some 0)],
           core_developers = []\<rparr>"
  have run: "check_members example_constants (example_platform 3000000000000 []) ?pydis
     = ([example_member 32 [1] (Some 2000000000000)], [example_member 31 [1] (Some 0)])"
    by (simp add: check_members_def example_platform_def example_member_def example_constants_def
        is_verified_def timedelta_days_def KICKED_AFTER_def UNVERIFIED_AFTER_def)
  from check_members_disjoint_unverified
    [of example_constants "example_platform 3000000000000 []" ?pydis]
  show ?thesis
    unfolding run by simp
qed

subsection \<open>The reminder scheduler\<close>

text \<open>
  C8. Before the first run, \<^verbatim>\<open>_before_first_ping\<close> returns at once, without sleeping,
  when no reminder is cached; otherwise it sleeps \<open>max(0, 28 h - (now - t))\<close> seconds,
  where \<open>t\<close> is the timestamp of the cached message id. For a cached id whose timestamp
  is 10 hours before now, it sleeps 18 hours.
\<close>

theorem before_first_ping_delay:
  "(cache ''last_reminder'' = None \<longrightarrow> before_first_ping pf cache = ([], Inr ()))
   \<and> (\<forall>last. cache ''last_reminder'' = Some last \<longrightarrow>
         before_first_ping pf cache =
           ([Sleep (max 0 (28 * 3600 - of_int (utcnow pf - snowflake_time last) / 1000000))], Inr ())
         \<and> (utcnow pf - snowflake_time last = 10 * 3600 * 1000000 \<longrightarrow>
              before_first_ping pf cache = ([Sleep (18 * 3600)], Inr ())))"
proof (intro conjI allI impI)
  assume "cache ''last_reminder'' = None"
  then show "before_first_ping pf cache = ([], Inr ())"
    by (simp add: before_first_ping_def io_return_def)
next
  fix last
  assume last: "cache ''last_reminder'' = Some last"
  have secs: "total_seconds (timedelta_hours REMINDER_FREQUENCY - (utcnow pf - snowflake_time last))
      = 28 * 3600 - of_int (utcnow pf - snowflake_time last) / 1000000"
    by (simp add: total_seconds_def timedelta_hours_def REMINDER_FREQUENCY_def diff_divide_distrib)
  from last show general: "before_first_ping pf cache =
      ([Sleep (max 0 (28 * 3600 - of_int (utcnow pf - snowflake_time last) / 1000000))], Inr ())"
    by (simp add: before_first_ping_def Let_def io_call_def secs max.commute)
  assume "utcnow pf - snowflake_time last = 10 * 3600 * 1000000"
  with general show "before_first_ping pf cache = ([Sleep (18 * 3600)], Inr ())"
    by simp
qed

theorem before_first_ping_delay_witness:
  "before_first_ping (example_platform 0 []) Map.empty = ([], Inr ())
   \<and> snowflake_time 4194304 = 1420070400001000
   \<and> before_first_ping (example_platform 1420106400001000 []) [''last_reminder'' \<mapsto> 4194304]
       = ([Sleep 64800], Inr ())
   \<and> before_first_ping (example_platform 1420270400001000 []) [''last_reminder'' \<mapsto> 4194304]
       = ([Sleep 0], Inr ())"
  using before_first_ping_delay [of Map.empty "example_platform 0 []"]
    before_first_ping_delay [of "[''last_reminder'' \<mapsto> 4194304]" "example_platform 1420106400001000 []"]
    before_first_ping_delay [of "[''last_reminder'' \<mapsto> 4194304]" "example_platform 1420270400001000 []"]
  by (simp add: snowflake_time_def DISCORD_EPOCH_def example_platform_def)

text \<open>
  C10. In a run of \<^verbatim>\<open>ping_unverified\<close> the cached cursor changes only when the send of
  the new reminder succeeded, and then it becomes the id of the message sent; when the
  send raises, and whenever the run raises, the cache is what it was.
\<close>

theorem ping_unverified_cursor:
  "(\<forall>e. send_reminder pf = Inl e \<longrightarrow> snd (ping_unverified c pf cache) = cache)
   \<and> (\<forall>e. snd (fst (ping_unverified c pf cache)) = Inl e \<longrightarrow> snd (ping_unverified c pf cache) = cache)
   \<and> (snd (ping_unverified c pf cache) \<noteq> cache \<longrightarrow>
        (\<exists>new. send_reminder pf = Inr new
           \<and> snd (ping_unverified c pf cache) = cache(''last_reminder'' \<mapsto> new)
           \<and> snd (fst (ping_unverified c pf cache)) = Inr ()
           \<and> ChannelSend (Channels_verification c) (REMINDER_MESSAGE c)
               \<in> set (fst (fst (ping_unverified c pf cache)))))"
proof -
  let ?deleted = "case cache ''last_reminder'' of
      None \<Rightarrow> io_return ()
    | Some lr \<Rightarrow> suppress is_HTTPException
        (io_call (DeleteMessage (Channels_verification c) lr) (delete_message pf))"
  let ?send = "io_call (ChannelSend (Channels_verification c) (REMINDER_MESSAGE c)) (send_reminder pf)"
  obtain es r where d: "?deleted = (es, r)" by (cases ?deleted)
  have p: "ping_unverified c pf cache =
    (case io_bind ?deleted (\<lambda>_. ?send) of
       (es, Inl e) \<Rightarrow> ((es, Inl e), cache)
     | (es, Inr new_reminder) \<Rightarrow> ((es, Inr ()), cache(''last_reminder'' \<mapsto> new_reminder)))"
    by (simp add: ping_unverified_def Let_def)
  show ?thesis
    unfolding p d
    by (cases r; cases "send_reminder pf") (auto simp: io_bind_def io_call_def)
qed

theorem ping_unverified_cursor_witness:
  "send_reminder ((example_platform 0 []) \<lparr>send_reminder := Inl (HTTPException 500)\<rparr>)
     = Inl (HTTPException 500)
   \<and> snd (ping_unverified example_constants
            ((example_platform 0 []) \<lparr>send_reminder := Inl (HTTPException 500)\<rparr>)
            [''last_reminder'' \<mapsto> 77])
     = [''last_reminder'' \<mapsto> 77]
   \<and> snd (ping_unverified example_constants (example_platform 0 []) [''last_reminder'' \<mapsto> 77])
     \<noteq> [''last_reminder'' \<mapsto> 77]
   \<and> snd (ping_unverified example_constants (example_platform 0 []) [''last_reminder'' \<mapsto> 77])
     = [''last_reminder'' \<mapsto> 501]
   \<and> send_reminder (example_platform 0 []) = Inr 501"
proof -
  let ?bad = "(example_platform 0 []) \<lparr>send_reminder := Inl (HTTPException 500)\<rparr>"
  have f: "send_reminder ?bad = Inl (HTTPException 500)"
    by simp
  have ok: "snd (ping_unverified example_constants (example_platform 0 []) [''last_reminder'' \<mapsto> 77])
     = [''last_reminder'' \<mapsto> 501]"
    by (simp add: ping_unverified_def Let_def example_platform_def io_bind_def io_call_def
        suppress_def)
  have "[''last_reminder'' \<mapsto> 501] ''last_reminder'' \<noteq> [''last_reminder'' \<mapsto> (77::int)] ''last_reminder''"
    by simp
  then have ne: "[''last_reminder'' \<mapsto> 501] \<noteq> [''last_reminder'' \<mapsto> (77::int)]"
    by metis
  from ping_unverified_cursor [of ?bad example_constants "[''last_reminder'' \<mapsto> 77]"] f
    ping_unverified_cursor [of "example_platform 0 []" example_constants "[''last_reminder'' \<mapsto> 77]"]
    ok ne
  show ?thesis
    by (simp add: example_platform_def)
qed

subsection \<open>The lifecycle scheduler's run\<close>

lemma io_bind_effects:
  assumes "list_all P (fst m)" and "\<And>x. list_all P (fst (f x))"
  shows "list_all P (fst (io_bind m f))"
proof (cases m)
  case (Pair es r)
  show ?thesis
  proof (cases r)
    case (Inl e)
    with Pair assms(1) show ?thesis by (simp add: io_bind_def)
  next
    case (Inr x)
    with Pair assms(1) assms(2) [of x] show ?thesis
      by (cases "f x") (simp add: io_bind_def)
  qed
qed

lemma fst_suppress [simp]: "fst (suppress handled m) = fst m"
  by (simp add: suppress_def split: prod.splits sum.splits)

lemma fst_io_call [simp]: "fst (io_call eff r) = [eff]"
  by (simp add: io_call_def)

lemma fst_io_return [simp]: "fst (io_return x) = []"
  by (simp add: io_return_def)

lemma add_reactions_no_kick:
  "list_all (\<lambda>e. \<not> kick_effect e) (fst (add_reactions pf msg opts))"
  by (induction opts) (simp_all add: io_bind_effects kick_effect_def)

lemma verify_kick_at_no_kick:
  "list_all (\<lambda>e. \<not> kick_effect e) (fst (verify_kick_at th c pf pydis n))"
proof -
  have fin: "list_all (\<lambda>e. \<not> kick_effect e)
      (fst (suppress is_HTTPException (io_call (ClearReactions msg) (clear_reactions pf))))" for msg
    by (simp add: kick_effect_def)
  have ed: "list_all (\<lambda>e. \<not> kick_effect e)
      (fst (suppress is_HTTPException (io_call (EditMessage msg body) (edit_message pf))))" for msg body
    by (simp add: kick_effect_def)
  have sp: "list_all (\<lambda>e. \<not> kick_effect e) (fst (io_call (SendPrompt ch n p) (send_prompt pf)))" for ch p
    by (simp add: kick_effect_def)
  show ?thesis
    unfolding verify_kick_at_def Let_def
    by (simp add: io_bind_effects add_reactions_no_kick fin ed sp split: option.splits
        del: add_reactions.simps fst_suppress fst_io_call)
qed

lemma send_requests_loop_effects:
  "set (fst (send_requests_loop coroutines n_success bad_statuses)) \<subseteq> set (concat (map fst coroutines))"
proof (induction coroutines arbitrary: n_success bad_statuses)
  case Nil
  then show ?case by simp
next
  case (Cons coro rest)
  obtain es r where coro: "coro = (es, r)" by (cases coro)
  show ?case
  proof (cases r)
    case (Inr u)
    with coro Cons.IH [of "n_success + 1" bad_statuses] show ?thesis
      by (auto simp: io_bind_done)
  next
    case (Inl e)
    show ?thesis
    proof (cases e)
      case (HTTPException status)
      with coro Inl Cons.IH [of n_success "insert status bad_statuses"] show ?thesis
        by (auto simp: io_bind_done)
    qed (use coro Inl in auto)
  qed
qed

lemma send_requests_effects:
  "set (fst (send_requests coroutines)) \<subseteq> set (concat (map fst coroutines))"
proof -
  have "fst (send_requests coroutines) = fst (send_requests_loop coroutines 0 {})"
    by (cases "send_requests_loop coroutines 0 {}")
      (auto simp: send_requests_def io_bind_def io_return_def split: sum.splits)
  then show ?thesis
    using send_requests_loop_effects [of coroutines 0 "{}"] by simp
qed

lemma give_role_no_kick:
  "list_all (\<lambda>e. \<not> kick_effect e) (fst (give_role c pf members role))"
  unfolding list_all_iff
proof
  fix e
  assume "e \<in> set (fst (give_role c pf members role))"
  with send_requests_effects
  have "e \<in> set (concat (map fst (map (\<lambda>member. role_request c pf (live pf member) role) members)))"
    unfolding give_role_def Let_def by blast
  then show "\<not> kick_effect e"
    by (auto simp: role_request_def kick_effect_def io_return_def io_call_def split: if_splits)
qed

text \<open>
  C3. In a run of \<^verbatim>\<open>update_unverified_members\<close> whose \<open>for_kick\<close> is not empty: a call
  of the kick executor (a direct message, a kick, the statistics counter) is issued only
  if \<^verbatim>\<open>_verify_kick\<close> returned \<open>True\<close>; when it returned \<open>False\<close> none is issued, and
  the run ends by sending the summary whose kick report is
  \<^verbatim>\<open>Not authorized to kick `n` members.\<close> (the role phase having raised nothing).
\<close>

theorem unauthorized_kick_not_executed:
  assumes "check_members c pf pydis = (for_role, for_kick)" and "for_kick \<noteq> []"
  shows
    "let run = update_unverified_members c pf pydis pydis';
         authorization = snd (verify_kick c pf pydis' (int (length for_kick)))
     in ((\<exists>e \<in> set (fst run). kick_effect e) \<longrightarrow> authorization = Inr True)
      \<and> (authorization = Inr False \<longrightarrow> (\<forall>e \<in> set (fst run). \<not> kick_effect e))
      \<and> (authorization = Inr False \<and> \<not> isl (snd (give_role c pf for_role (Roles_unverified c)))
           \<longrightarrow> (\<exists>es role_report. fst run =
                  es @ [SendLogMessage ''Verification system''
                          (''Not authorized to kick `'' @ str_nat (length for_kick)
                           @ ''` members.'' @ [CHR 0x0A] @ role_report)]))"
proof -
  let ?run = "update_unverified_members c pf pydis pydis'"
  let ?V = "verify_kick c pf pydis' (int (length for_kick))"
  let ?na = "''Not authorized to kick `'' @ str_nat (length for_kick) @ ''` members.''"
  let ?unverified = "Roles_unverified c"
  let ?A = "if for_role = []
         then io_return (''Found no users to be assigned the '' @ mention ?unverified @ '' role.'')
         else io_bind (give_role c pf for_role ?unverified)
                (\<lambda>n_roles. io_return
                   (''Assigned '' @ mention ?unverified @ '' role to `'' @ str_nat n_roles
                    @ ''`/`'' @ str_nat (length for_role) @ ''` members.''))"
  let ?K = "\<lambda>authorized. if \<not> authorized then io_return ?na
                   else io_bind (kick_members c pf for_kick)
                          (\<lambda>n_kicks. io_return
                             (''Kicked `'' @ str_nat n_kicks @ ''`/`''
                              @ str_nat (length for_kick) @ ''` members from the guild.''))"
  let ?L = "\<lambda>role_report kick_report.
      io_call (SendLogMessage ''Verification system'' (kick_report @ [CHR 0x0A] @ role_report))
        (send_log_message pf)"
  have run: "?run = io_bind ?A (\<lambda>role_report. io_bind (io_bind ?V ?K) (?L role_report))"
    using assms by (simp add: update_unverified_members_def Let_def)
  have A_no_kick: "list_all (\<lambda>e. \<not> kick_effect e) (fst ?A)"
    by (simp add: io_bind_effects give_role_no_kick)
  have V_no_kick: "list_all (\<lambda>e. \<not> kick_effect e) (fst ?V)"
    unfolding verify_kick_def by (rule verify_kick_at_no_kick)
  have L_no_kick: "\<And>role_report kick_report.
      list_all (\<lambda>e. \<not> kick_effect e) (fst (?L role_report kick_report))"
    by (simp add: kick_effect_def)
  have not_true: "\<forall>e \<in> set (fst ?run). \<not> kick_effect e" if "snd ?V \<noteq> Inr True"
  proof -
    obtain es r where V: "?V = (es, r)" by (cases ?V)
    have "fst (io_bind ?V ?K) = fst ?V"
    proof (cases r)
      case (Inl e)
      with V show ?thesis by (simp add: io_bind_def)
    next
      case (Inr b)
      with V that have "\<not> b" by simp
      with V Inr show ?thesis by (simp add: io_bind_def io_return_def)
    qed
    with V_no_kick have VK: "list_all (\<lambda>e. \<not> kick_effect e) (fst (io_bind ?V ?K))"
      by simp
    have "list_all (\<lambda>e. \<not> kick_effect e) (fst ?run)"
      unfolding run
      by (intro io_bind_effects A_no_kick VK L_no_kick)
    then show ?thesis
      by (simp add: list_all_iff)
  qed
  have only_if: "(\<exists>e \<in> set (fst ?run). kick_effect e) \<longrightarrow> snd ?V = Inr True"
    using not_true by blast
  have denied: "snd ?V = Inr False \<longrightarrow> (\<forall>e \<in> set (fst ?run). \<not> kick_effect e)"
    using not_true by simp
  have summary: "\<exists>es role_report. fst ?run =
       es @ [SendLogMessage ''Verification system'' (?na @ [CHR 0x0A] @ role_report)]"
    if den: "snd ?V = Inr False" and role: "\<not> isl (snd (give_role c pf for_role ?unverified))"
  proof -
    obtain vs where V: "?V = (vs, Inr False)"
      using den by (cases ?V) simp
    obtain gs k where G: "give_role c pf for_role ?unverified = (gs, Inr k)"
      using role by (cases "give_role c pf for_role ?unverified"; cases "snd (give_role c pf for_role ?unverified)") auto
    obtain as role_report where A: "?A = (as, Inr role_report)"
      using G by (cases "for_role = []") (simp_all add: io_return_def io_bind_def)
    have "fst ?run = as @ vs @ [SendLogMessage ''Verification system'' (?na @ [CHR 0x0A] @ role_report)]"
      unfolding run A V
      by (simp add: io_bind_def io_return_def io_call_def split: prod.splits)
    then have "fst ?run = (as @ vs) @ [SendLogMessage ''Verification system'' (?na @ [CHR 0x0A] @ role_report)]"
      by simp
    then show ?thesis by blast
  qed
  from only_if denied summary show ?thesis
    unfolding Let_def by simp
qed

theorem unauthorized_kick_not_executed_witness:
  "check_members example_constants
      (example_platform 3000000000000
         [\<lparr>arrived = 5, reaction_message_id = 500, reaction_emoji = ''no'', user_id = 40\<rparr>])
      \<lparr>guild_members = [example_member 31 [1] (Some 0)],
       core_developers = [example_member 40 [1, 8] None]\<rparr>
     = ([], [example_member 31 [1] (Some 0)])
   \<and> snd (verify_kick example_constants
      (example_platform 3000000000000
         [\<lparr>arrived = 5, reaction_message_id = 500, reaction_emoji = ''no'', user_id = 40\<rparr>])
      \<lparr>guild_members = [example_member 31 [1] (Some 0)],
       core_developers = [example_member 40 [1, 8] None]\<rparr> 1) = Inr False
   \<and> fst (update_unverified_members example_constants
      (example_platform 3000000000000
         [\<lparr>arrived = 5, reaction_message_id = 500, reaction_emoji = ''no'', user_id = 40\<rparr>])
      \<lparr>guild_members = [example_member 31 [1] (Some 0)],
       core_developers = [example_member 40 [1, 8] None]\<rparr>
      \<lparr>guild_members = [example_member 31 [1] (Some 0)],
       core_developers = [example_member 40 [1, 8] None]\<rparr>)
     = [SendPrompt 20 1 1, AddReaction 500 ''yes'', AddReaction 500 ''no'', ClearReactions 500,
        EditMessage 500 '':warning: Request to kick `1` members was denied!'',
        SendLogMessage ''Verification system''
          (''Not authorized to kick `1` members.'' @ [CHR 0x0A]
           @ ''Found no users to be assigned the <@&7> role.'')]"
proof -
  let ?pf = "example_platform 3000000000000
         [\<lparr>arrived = 5, reaction_message_id = 500, reaction_emoji = ''no'', user_id = 40\<rparr>]"
  let ?pydis = "\<lparr>guild_members = [example_member 31 [1] (Some 0)],
       core_developers = [example_member 40 [1, 8] None]\<rparr>"
  have cm: "check_members example_constants ?pf ?pydis = ([], [example_member 31 [1] (Some 0)])"
    by (simp add: check_members_def example_platform_def example_member_def example_constants_def
        is_verified_def timedelta_days_def KICKED_AFTER_def UNVERIFIED_AFTER_def)
  have ne: "[example_member 31 [1] (Some 0)] \<noteq> []"
    by simp
  have vk: "verify_kick example_constants ?pf ?pydis 1 =
      ([SendPrompt 20 1 1, AddReaction 500 ''yes'', AddReaction 500 ''no'', ClearReactions 500,
        EditMessage 500 '':warning: Request to kick `1` members was denied!''], Inr False)"
    by (simp add: verify_kick_def verify_kick_at_def KICK_CONFIRMATION_THRESHOLD_def Let_def
        example_platform_def example_member_def example_constants_def io_bind_def io_call_def
        io_return_def suppress_def wait_for_def check_def denied_msg_def str_int_def
        str_nat.simps)
  have gr: "give_role example_constants ?pf [] (Roles_unverified example_constants) = ([], Inr 0)"
    by (simp add: give_role_def send_requests_def io_return_def io_bind_def)
  have ru: "Roles_unverified example_constants = 7"
    by (simp add: example_constants_def)
  have full: "fst (update_unverified_members example_constants ?pf ?pydis ?pydis)
     = [SendPrompt 20 1 1, AddReaction 500 ''yes'', AddReaction 500 ''no'', ClearReactions 500,
        EditMessage 500 '':warning: Request to kick `1` members was denied!'',
        SendLogMessage ''Verification system''
          (''Not authorized to kick `1` members.'' @ [CHR 0x0A]
           @ ''Found no users to be assigned the <@&7> role.'')]"
    by (simp add: update_unverified_members_def cm vk ru io_bind_def io_call_def io_return_def
        mention_def str_int_def str_nat.simps)
  from unauthorized_kick_not_executed [OF cm ne, of ?pydis] cm vk gr full show ?thesis
    by simp
qed

end
